theory Spec2Isabelle
  imports Complex_Main "HOL-Library.Word"
begin

section \<open>The Opus decoder worker (src/opus-decoder-worker.js)\<close>

text \<open>
  The worker owns one \<^verbatim>\<open>OpusDecoderWorker\<close> object and drives it from
  \<^verbatim>\<open>self.onmessage\<close>. Everything outside the file is external: the
  Emscripten module (its linear memory and the primitives \<^verbatim>\<open>_malloc\<close>,
  \<^verbatim>\<open>_free\<close>, \<^verbatim>\<open>_opus_decoder_create\<close>, \<^verbatim>\<open>_opus_decode_float\<close>,
  \<^verbatim>\<open>_opus_decoder_ctl\<close>, \<^verbatim>\<open>_opus_decoder_destroy\<close>), the module loader and the
  message channel. The embedding keeps the worker's code as functions on an explicit
  state and takes the answers of the external layer as arguments, so every theorem holds
  for every behaviour of that layer. Each call into the native layer is appended to a
  log, each \<^verbatim>\<open>self.postMessage\<close> to a list of posted messages, and each
  \<^verbatim>\<open>console.error\<close> to a list of logged errors. A trap of the native layer is
  modelled for the decode and the control primitive, whose failures the worker handles;
  the allocation, creation and release calls are taken to return.
\<close>

subsection \<open>Data\<close>

type_synonym byte = "8 word"

text \<open>
  A Float32 element is kept as its 32-bit pattern: the worker only allocates
  (zero-filled) and copies such elements, it never computes with them. The pattern 0 is
  the value 0.0.
\<close>

type_synonym sample = "32 word"

text \<open>The exceptions of the file, and those of the language and of external code.\<close>

datatype js_error =
    NotInitialized    \<comment> \<open>\<^verbatim>\<open>new Error('Decoder not initialized')\<close>\<close>
  | DecodeFailed int  \<comment> \<open>\<^verbatim>\<open>new Error(`Opus decode failed: ${samplesDecoded}`)\<close>\<close>
  | CreationFailed int \<comment> \<open>\<^verbatim>\<open>new Error(`Opus decoder creation failed: ${errorCode}`)\<close>\<close>
  | RangeError        \<comment> \<open>a typed-array view that does not lie inside its ArrayBuffer\<close>
  | TypeError         \<comment> \<open>reading a property of \<^verbatim>\<open>undefined\<close>\<close>
  | Thrown string     \<comment> \<open>an exception raised by external code (loader or native call)\<close>

text \<open>The Emscripten module instance: its linear memory, seen through \<^verbatim>\<open>HEAPU8\<close>.\<close>

record wasm_module =
  HEAPU8 :: "byte list"

text \<open>
  The fields of \<^verbatim>\<open>OpusDecoderWorker\<close> that are assigned after construction.
  \<^verbatim>\<open>null\<close> is \<open>None\<close>; a pointer is the JavaScript number the native layer returned.
\<close>

record OpusDecoderWorker =
  decoder :: "int option"
  wasmModule :: "wasm_module option"
  inputBuffer :: "int option"
  outputBuffer :: "int option"

text \<open>The fields the constructor sets and nothing ever assigns again.\<close>

definition maxFrameSize :: int where
  "maxFrameSize = 5760"

definition sampleRate :: int where
  "sampleRate = 48000"

definition channels :: int where
  "channels = 1"

text \<open>
  A JavaScript number: a finite double is the rational number it denotes (the sign of
  zero is not kept), and there are the two infinities and NaN.
\<close>

datatype js_number = Finite rat | PosInfinity | NegInfinity | NaN

text \<open>The calls into the native layer, with the arguments the worker passes.\<close>

datatype native_call =
    Malloc int
  | Free "int option"
  | GetValue int
  | OpusDecoderCreate int int int
  | OpusDecodeFloat "int option" "int option" int "int option" int int
  | OpusDecoderCtl "int option" int js_number
  | OpusDecoderDestroy "int option"

text \<open>
  The messages the worker posts. The \<^verbatim>\<open>timestamp\<close> and \<^verbatim>\<open>decodeTime\<close>
  fields are readings of \<^verbatim>\<open>performance.now()\<close> and are left out; a field that a
  message does not carry is \<open>None\<close>.
\<close>

record decoded_audio =
  audioData :: "sample list"
  samplesDecoded :: "nat option"
  isPacketLoss :: "bool option"

datatype posted_message =
    DecoderReady
  | DecoderError js_error
  | DecodedAudio decoded_audio
  | DecodeError js_error
  | Destroyed

text \<open>
  The state of the worker's global scope: the \<^verbatim>\<open>decoderWorker\<close> object, what has
  been posted, the native calls made and the errors logged so far, and the number of
  \<^verbatim>\<open>initialize()\<close> calls that are suspended at their \<^verbatim>\<open>await\<close>.
\<close>

record world =
  decoderWorker :: OpusDecoderWorker
  posted :: "posted_message list"
  native_calls :: "native_call list"
  console_error :: "js_error list"
  pending_init :: nat

text \<open>\<^verbatim>\<open>new OpusDecoderWorker()\<close> in a fresh worker.\<close>

definition new_world :: world where
  "new_world =
     \<lparr>decoderWorker =
        \<lparr>decoder = None, wasmModule = None, inputBuffer = None, outputBuffer = None\<rparr>,
      posted = [], native_calls = [], console_error = [], pending_init = 0\<rparr>"

subsection \<open>The answers of the external layer\<close>

text \<open>
  What the loader and the native calls of one \<^verbatim>\<open>initialize()\<close> give back: the
  module either fails to load (the promise rejects) or is instantiated; then
  \<^verbatim>\<open>_malloc(4)\<close> returns \<open>errorPtr\<close>, \<^verbatim>\<open>_opus_decoder_create\<close> returns
  \<open>handle\<close>, \<^verbatim>\<open>getValue(errorPtr, 'i32')\<close> returns \<open>errorCode\<close>, the two later
  \<^verbatim>\<open>_malloc\<close> calls return \<open>inputPtr\<close> and \<open>outputPtr\<close>, and \<open>memory\<close> is the
  linear memory of the new instance as these calls leave it.
\<close>

record native_init =
  errorPtr :: int
  handle :: int
  errorCode :: int
  inputPtr :: int
  outputPtr :: int
  memory :: "byte list"

datatype module_load = LoadRejects string | LoadResolves native_init

text \<open>
  \<^verbatim>\<open>_opus_decode_float\<close> returns a number and leaves the linear memory in some
  state, or traps. It is a function of the memory it is called on.
\<close>

datatype native_decode = DecodeReturns int "byte list" | DecodeTraps string

datatype native_ctl = CtlReturns int | CtlTraps string

record native =
  opus_decode_float :: "byte list \<Rightarrow> native_decode"
  opus_decoder_ctl :: native_ctl

subsection \<open>JavaScript values and typed arrays\<close>

text \<open>Truthiness of a pointer-or-null: \<^verbatim>\<open>null\<close> and \<^verbatim>\<open>0\<close> are falsy.\<close>

fun truthy :: "int option \<Rightarrow> bool" where
  "truthy None = False"
| "truthy (Some p) = (p \<noteq> 0)"

text \<open>\<^verbatim>\<open>null\<close> used as a byte offset is 0.\<close>

fun to_index :: "int option \<Rightarrow> int" where
  "to_index None = 0"
| "to_index (Some p) = p"

text \<open>
  \<^verbatim>\<open>new TypedArray(buffer, byteOffset, length)\<close> throws a RangeError unless the
  offset is non-negative and a multiple of the element size and the view ends inside
  the buffer.
\<close>

definition view_ok :: "byte list \<Rightarrow> int \<Rightarrow> nat \<Rightarrow> nat \<Rightarrow> bool" where
  "view_ok heap off elt n =
     (0 \<le> off \<and> nat off mod elt = 0 \<and> nat off + elt * n \<le> length heap)"

text \<open>\<^verbatim>\<open>view.set(bytes)\<close> on a Uint8Array view at \<open>off\<close> of the same length.\<close>

definition write_bytes :: "byte list \<Rightarrow> nat \<Rightarrow> byte list \<Rightarrow> byte list" where
  "write_bytes heap off bs = take off heap @ bs @ drop (off + length bs) heap"

text \<open>Element \<open>k\<close> of a Float32Array view at \<open>off\<close>: four bytes, little-endian.\<close>

definition f32_at :: "byte list \<Rightarrow> nat \<Rightarrow> sample" where
  "f32_at heap a = word_rcat [heap ! (a + 3), heap ! (a + 2), heap ! (a + 1), heap ! a]"

definition read_f32 :: "byte list \<Rightarrow> nat \<Rightarrow> nat \<Rightarrow> sample list" where
  "read_f32 heap off n = map (\<lambda>k. f32_at heap (off + 4 * k)) [0..<n]"

text \<open>The four bytes a Float32Array element occupies in its buffer, lowest first.\<close>

definition f32_bytes :: "sample \<Rightarrow> byte list" where
  "f32_bytes x = [ucast x, ucast (drop_bit 8 x), ucast (drop_bit 16 x), ucast (drop_bit 24 x)]"

subsection \<open>The methods of OpusDecoderWorker\<close>

text \<open>
  The test \<^verbatim>\<open>this.decoder && this.wasmModule\<close> that \<^verbatim>\<open>decode\<close>,
  \<^verbatim>\<open>configure\<close>, \<^verbatim>\<open>reset\<close> and \<^verbatim>\<open>destroy\<close> all start with. The class has no
  lifecycle field: this test is what it knows of its state.
\<close>

definition initialized :: "OpusDecoderWorker \<Rightarrow> bool" where
  "initialized d = (truthy (decoder d) \<and> wasmModule d \<noteq> None)"

definition set_heap :: "byte list \<Rightarrow> world \<Rightarrow> world" where
  "set_heap h w =
     w\<lparr>decoderWorker := (decoderWorker w)\<lparr>wasmModule := Some \<lparr>HEAPU8 = h\<rparr>\<rparr>\<rparr>"

definition call_native :: "native_call list \<Rightarrow> world \<Rightarrow> world" where
  "call_native cs w = w\<lparr>native_calls := native_calls w @ cs\<rparr>"

definition post_message :: "posted_message \<Rightarrow> world \<Rightarrow> world" where
  "post_message m w = w\<lparr>posted := posted w @ [m]\<rparr>"

definition log_error :: "js_error \<Rightarrow> world \<Rightarrow> world" where
  "log_error e w = w\<lparr>console_error := console_error w @ [e]\<rparr>"

text \<open>
  \<^verbatim>\<open>initialize()\<close> is an async function whose body starts with
  \<^verbatim>\<open>await import('./libopus.js')\<close> and \<^verbatim>\<open>await LibOpusModule.default()\<close>: a call
  returns to its caller before any field is touched, and the rest of the body runs
  later, when the loader has answered. Nothing is assigned between the two awaits, so
  they are one suspension here. \<open>initialize_begin\<close> is the call,
  \<open>initialize_resume\<close> the rest of the body of one suspended call.
\<close>

definition initialize_begin :: "world \<Rightarrow> world" where
  "initialize_begin w = w\<lparr>pending_init := pending_init w + 1\<rparr>"

definition initialize_resume :: "module_load \<Rightarrow> world \<Rightarrow> world" where
  "initialize_resume ld w =
     (if pending_init w = 0 then w
      else
        let w0 = w\<lparr>pending_init := pending_init w - 1\<rparr> in
        case ld of
          LoadRejects msg \<Rightarrow> post_message (DecoderError (Thrown msg)) w0
        | LoadResolves n \<Rightarrow>
            let d = (decoderWorker w0)
                      \<lparr>wasmModule := Some \<lparr>HEAPU8 = memory n\<rparr>, decoder := Some (handle n)\<rparr>;
                w1 = call_native
                       [Malloc 4,
                        OpusDecoderCreate sampleRate channels (errorPtr n),
                        GetValue (errorPtr n),
                        Free (Some (errorPtr n))]
                       (w0\<lparr>decoderWorker := d\<rparr>)
            in
              if errorCode n \<noteq> 0
              then post_message (DecoderError (CreationFailed (errorCode n))) w1
              else
                post_message DecoderReady
                  (call_native [Malloc 4000, Malloc (maxFrameSize * 4)]
                     (w1\<lparr>decoderWorker :=
                           d\<lparr>inputBuffer := Some (inputPtr n),
                             outputBuffer := Some (outputPtr n)\<rparr>\<rparr>)))"

text \<open>
  \<^verbatim>\<open>decode(opusData)\<close>: the guard throws outside the \<^verbatim>\<open>try\<close>; every exception
  inside it is logged and thrown again.
\<close>

definition decode ::
  "byte list \<Rightarrow> (byte list \<Rightarrow> native_decode) \<Rightarrow> world \<Rightarrow> (js_error + sample list) \<times> world" where
  "decode opusData decode_float w =
     (let d = decoderWorker w in
      case wasmModule d of
        None \<Rightarrow> (Inl NotInitialized, w)
      | Some m \<Rightarrow>
          if \<not> truthy (decoder d) then (Inl NotInitialized, w)
          else if \<not> view_ok (HEAPU8 m) (to_index (inputBuffer d)) 1 (length opusData)
          then (Inl RangeError, log_error RangeError w)
          else
            let staged = write_bytes (HEAPU8 m) (nat (to_index (inputBuffer d))) opusData;
                w1 = call_native
                       [OpusDecodeFloat (decoder d) (inputBuffer d) (int (length opusData))
                          (outputBuffer d) maxFrameSize 0]
                       (set_heap staged w)
            in
              case decode_float staged of
                DecodeTraps msg \<Rightarrow> (Inl (Thrown msg), log_error (Thrown msg) w1)
              | DecodeReturns samples heap \<Rightarrow>
                  let w2 = set_heap heap w1 in
                  if samples < 0
                  then (Inl (DecodeFailed samples), log_error (DecodeFailed samples) w2)
                  else if \<not> view_ok heap (to_index (outputBuffer d)) 4 (nat samples)
                  then (Inl RangeError, log_error RangeError w2)
                  else (Inr (read_f32 heap (nat (to_index (outputBuffer d))) (nat samples)), w2))"

text \<open>
  A configuration update. \<^verbatim>\<open>config.gain\<close> is undefined, null or a number (other
  kinds of value are not modelled).
\<close>

datatype gain_value = Undefined | Null | Number js_number

record config =
  gain :: gain_value

text \<open>The operand of \<^verbatim>\<open>config.gain * 256\<close> as a number: null is 0, undefined is NaN.\<close>

fun to_number :: "gain_value \<Rightarrow> js_number" where
  "to_number Undefined = NaN"
| "to_number Null = Finite 0"
| "to_number (Number x) = x"

text \<open>
  The double product \<^verbatim>\<open>x * 256\<close>. For a finite double the product is exact (256 is
  a power of two) unless its magnitude reaches \<open>2 ^ 1024\<close>, where it overflows to an
  infinity.
\<close>

fun times_256 :: "js_number \<Rightarrow> js_number" where
  "times_256 (Finite q) =
     (if 2 ^ 1024 \<le> q * 256 then PosInfinity
      else if q * 256 \<le> - (2 ^ 1024) then NegInfinity
      else Finite (q * 256))"
| "times_256 PosInfinity = PosInfinity"
| "times_256 NegInfinity = NegInfinity"
| "times_256 NaN = NaN"

text \<open>\<^verbatim>\<open>Math.round\<close>: the nearest integer, halves going up; infinities and NaN stay.\<close>

fun math_round :: "js_number \<Rightarrow> js_number" where
  "math_round (Finite q) = Finite (of_int (round q))"
| "math_round PosInfinity = PosInfinity"
| "math_round NegInfinity = NegInfinity"
| "math_round NaN = NaN"

definition OPUS_SET_GAIN_REQUEST :: int where
  "OPUS_SET_GAIN_REQUEST = 4034"

text \<open>
  \<^verbatim>\<open>configure(config)\<close>: returns at once when the guard fails; inside the
  \<^verbatim>\<open>try\<close> every exception is logged and swallowed, so the method always returns
  normally (\<open>Inr ()\<close>). The value handed to \<^verbatim>\<open>_opus_decoder_ctl\<close> is the JavaScript
  number \<^verbatim>\<open>gainValue\<close>.
\<close>

definition configure ::
  "config option \<Rightarrow> native_ctl \<Rightarrow> world \<Rightarrow> (js_error + unit) \<times> world" where
  "configure cfg ctl w =
     (if \<not> initialized (decoderWorker w) then (Inr (), w)
      else
        case cfg of
          None \<Rightarrow> (Inr (), log_error TypeError w)
        | Some c \<Rightarrow>
            if gain c \<noteq> Undefined
            then
              (let gainValue = math_round (times_256 (to_number (gain c)));
                   w1 = call_native
                          [OpusDecoderCtl (decoder (decoderWorker w)) OPUS_SET_GAIN_REQUEST
                             gainValue] w
               in
                 case ctl of
                   CtlReturns _ \<Rightarrow> (Inr (), w1)
                 | CtlTraps msg \<Rightarrow> (Inr (), log_error (Thrown msg) w1))
            else (Inr (), w))"

text \<open>The three native calls that \<^verbatim>\<open>reset\<close> and \<^verbatim>\<open>destroy\<close> both make.\<close>

definition release_calls :: "OpusDecoderWorker \<Rightarrow> native_call list" where
  "release_calls d =
     [OpusDecoderDestroy (decoder d), Free (inputBuffer d), Free (outputBuffer d)]"

text \<open>
  \<^verbatim>\<open>reset()\<close>: releases, then calls \<^verbatim>\<open>this.initialize()\<close> without awaiting it and
  without assigning any field.
\<close>

definition reset :: "world \<Rightarrow> world" where
  "reset w =
     (if initialized (decoderWorker w)
      then initialize_begin (call_native (release_calls (decoderWorker w)) w)
      else w)"

text \<open>\<^verbatim>\<open>destroy()\<close>: releases and sets \<^verbatim>\<open>this.decoder = null\<close>.\<close>

definition destroy :: "world \<Rightarrow> world" where
  "destroy w =
     (if initialized (decoderWorker w)
      then (call_native (release_calls (decoderWorker w)) w)
             \<lparr>decoderWorker := (decoderWorker w)\<lparr>decoder := None\<rparr>\<rparr>
      else w)"

subsection \<open>The message handler\<close>

text \<open>
  \<^verbatim>\<open>e.data\<close> of an inbound message: its \<^verbatim>\<open>type\<close>, with \<^verbatim>\<open>data\<close> for a decode
  and \<^verbatim>\<open>config\<close> for a configure (each \<open>None\<close> when absent). \<open>Other\<close> is any type
  the \<^verbatim>\<open>switch\<close> has no case for.
\<close>

datatype command =
    Init
  | Decode "byte list option"
  | Configure "config option"
  | Reset
  | Destroy
  | Other string

text \<open>The packet-loss branch: \<^verbatim>\<open>new Float32Array(480)\<close> is zero-filled.\<close>

definition silence_message :: posted_message where
  "silence_message =
     DecodedAudio \<lparr>audioData = replicate 480 0, samplesDecoded = None, isPacketLoss = Some True\<rparr>"

definition decode_message ::
  "byte list \<Rightarrow> (byte list \<Rightarrow> native_decode) \<Rightarrow> world \<Rightarrow> world" where
  "decode_message bs decode_float w =
     (case decode bs decode_float w of
        (Inr decodedAudio, w') \<Rightarrow>
          post_message
            (DecodedAudio \<lparr>audioData = decodedAudio,
                           samplesDecoded = Some (length decodedAudio),
                           isPacketLoss = None\<rparr>) w'
      | (Inl error, w') \<Rightarrow> post_message (DecodeError error) w')"

text \<open>
  \<^verbatim>\<open>self.onmessage\<close>, up to the point where the handler returns to the event loop.
  For \<^verbatim>\<open>init\<close> that is the \<^verbatim>\<open>await\<close> of the suspended \<^verbatim>\<open>initialize()\<close>; nothing
  follows it in the handler.
\<close>

fun onmessage :: "command \<Rightarrow> native \<Rightarrow> world \<Rightarrow> world" where
  "onmessage Init env w = initialize_begin w"
| "onmessage (Decode None) env w = post_message silence_message w"
| "onmessage (Decode (Some bs)) env w =
     (if length bs > 0 then decode_message bs (opus_decode_float env) w
      else post_message silence_message w)"
| "onmessage (Configure cfg) env w = snd (configure cfg (opus_decoder_ctl env) w)"
| "onmessage Reset env w = reset w"
| "onmessage Destroy env w = post_message Destroyed (destroy w)"
| "onmessage (Other t) env w = w"

text \<open>
  The worker's event loop: it takes one task at a time, either an inbound message or
  the continuation of a suspended \<^verbatim>\<open>initialize()\<close>, in the order the list gives.
\<close>

datatype event = Message command native | InitResumes module_load

fun step :: "event \<Rightarrow> world \<Rightarrow> world" where
  "step (Message c env) w = onmessage c env w"
| "step (InitResumes ld) w = initialize_resume ld w"

definition run :: "event list \<Rightarrow> world \<Rightarrow> world" where
  "run es w = fold step es w"

subsection \<open>Example answers of the external layer\<close>

text \<open>
  Concrete answers, used to run the worker on explicit inputs: a 16 MiB linear memory,
  a decoder at 5247000, the input region at 5265000 and the output region at 5269008.
\<close>

definition example_init :: native_init where
  "example_init =
     \<lparr>errorPtr = 5246976, handle = 5247000, errorCode = 0, inputPtr = 5265000,
      outputPtr = 5269008, memory = replicate 16777216 0\<rparr>"

text \<open>A second successful initialization, at other addresses.\<close>

definition example_reinit :: native_init where
  "example_reinit =
     \<lparr>errorPtr = 5246976, handle = 5247040, errorCode = 0, inputPtr = 5265040,
      outputPtr = 5269048, memory = replicate 16777216 0\<rparr>"

text \<open>A creation that fails with code -7 and returns the null handle.\<close>

definition example_failed_init :: native_init where
  "example_failed_init =
     \<lparr>errorPtr = 5246976, handle = 0, errorCode = - 7, inputPtr = 0, outputPtr = 0,
      memory = replicate 16777216 0\<rparr>"

text \<open>
  A native layer whose decode writes two samples (the bit patterns of 1.0 and 2.0) at
  5269008 and returns 2, and whose control call returns 0.
\<close>

definition example_native :: native where
  "example_native =
     \<lparr>opus_decode_float =
        (\<lambda>h. DecodeReturns 2 (write_bytes h 5269008 [0, 0, 128, 63, 0, 0, 0, 64])),
      opus_decoder_ctl = CtlReturns 0\<rparr>"

text \<open>
  A native layer whose decode writes two samples with no zero byte among the first six
  (the bytes 219, 15, 73, 64 are the single-precision pi) and returns 2.
\<close>

definition example_native_pi :: native where
  "example_native_pi =
     \<lparr>opus_decode_float =
        (\<lambda>h. DecodeReturns 2 (write_bytes h 5269008 [219, 15, 73, 64, 1, 2, 3, 4])),
      opus_decoder_ctl = CtlReturns 0\<rparr>"

text \<open>A native layer whose decode returns the error code -4 and whose control call traps.\<close>

definition failing_native :: native where
  "failing_native =
     \<lparr>opus_decode_float = (\<lambda>h. DecodeReturns (- 4) h),
      opus_decoder_ctl = CtlTraps ''unreachable''\<rparr>"

text \<open>The worker after \<^verbatim>\<open>init\<close> and a successful initialization.\<close>

definition ready_world :: world where
  "ready_world =
     run [Message Init example_native, InitResumes (LoadResolves example_init)] new_world"

section \<open>Properties\<close>

subsection \<open>State updates\<close>

lemma post_message_simps [simp]:
  "posted (post_message m w) = posted w @ [m]"
  "native_calls (post_message m w) = native_calls w"
  "decoderWorker (post_message m w) = decoderWorker w"
  "console_error (post_message m w) = console_error w"
  "pending_init (post_message m w) = pending_init w"
  by (simp_all add: post_message_def)

lemma call_native_simps [simp]:
  "posted (call_native cs w) = posted w"
  "native_calls (call_native cs w) = native_calls w @ cs"
  "decoderWorker (call_native cs w) = decoderWorker w"
  "console_error (call_native cs w) = console_error w"
  "pending_init (call_native cs w) = pending_init w"
  by (simp_all add: call_native_def)

lemma log_error_simps [simp]:
  "posted (log_error e w) = posted w"
  "native_calls (log_error e w) = native_calls w"
  "decoderWorker (log_error e w) = decoderWorker w"
  "console_error (log_error e w) = console_error w @ [e]"
  "pending_init (log_error e w) = pending_init w"
  by (simp_all add: log_error_def)

lemma set_heap_simps [simp]:
  "posted (set_heap h w) = posted w"
  "native_calls (set_heap h w) = native_calls w"
  "decoderWorker (set_heap h w) = (decoderWorker w)\<lparr>wasmModule := Some \<lparr>HEAPU8 = h\<rparr>\<rparr>"
  "console_error (set_heap h w) = console_error w"
  "pending_init (set_heap h w) = pending_init w"
  by (simp_all add: set_heap_def)

lemma initialize_begin_simps [simp]:
  "posted (initialize_begin w) = posted w"
  "native_calls (initialize_begin w) = native_calls w"
  "decoderWorker (initialize_begin w) = decoderWorker w"
  "console_error (initialize_begin w) = console_error w"
  "pending_init (initialize_begin w) = pending_init w + 1"
  by (simp_all add: initialize_begin_def)

subsection \<open>The three ways a suspended initialize() ends\<close>

lemma initialize_resume_success:
  assumes "0 < pending_init w" and "errorCode n = 0"
  shows "initialize_resume (LoadResolves n) w =
     w\<lparr>pending_init := pending_init w - 1,
       decoderWorker :=
         \<lparr>decoder = Some (handle n), wasmModule = Some \<lparr>HEAPU8 = memory n\<rparr>,
          inputBuffer = Some (inputPtr n), outputBuffer = Some (outputPtr n)\<rparr>,
       native_calls := native_calls w @
         [Malloc 4, OpusDecoderCreate 48000 1 (errorPtr n), GetValue (errorPtr n),
          Free (Some (errorPtr n)), Malloc 4000, Malloc 23040],
       posted := posted w @ [DecoderReady]\<rparr>"
  using assms
  by (simp add: initialize_resume_def Let_def post_message_def call_native_def
      maxFrameSize_def sampleRate_def channels_def)

lemma initialize_resume_create_failed:
  assumes "0 < pending_init w" and "errorCode n \<noteq> 0"
  shows "initialize_resume (LoadResolves n) w =
     w\<lparr>pending_init := pending_init w - 1,
       decoderWorker :=
         (decoderWorker w)\<lparr>wasmModule := Some \<lparr>HEAPU8 = memory n\<rparr>, decoder := Some (handle n)\<rparr>,
       native_calls := native_calls w @
         [Malloc 4, OpusDecoderCreate 48000 1 (errorPtr n), GetValue (errorPtr n),
          Free (Some (errorPtr n))],
       posted := posted w @ [DecoderError (CreationFailed (errorCode n))]\<rparr>"
  using assms
  by (simp add: initialize_resume_def Let_def post_message_def call_native_def
      sampleRate_def channels_def)

lemma initialize_resume_load_rejected:
  assumes "0 < pending_init w"
  shows "initialize_resume (LoadRejects msg) w =
     w\<lparr>pending_init := pending_init w - 1, posted := posted w @ [DecoderError (Thrown msg)]\<rparr>"
  using assms by (simp add: initialize_resume_def Let_def post_message_def)

lemma initialize_resume_posts_one:
  assumes "0 < pending_init w"
  shows "pending_init (initialize_resume ld w) = pending_init w - 1
     \<and> (posted (initialize_resume ld w) = posted w @ [DecoderReady]
        \<or> (\<exists>e. posted (initialize_resume ld w) = posted w @ [DecoderError e]))"
proof (cases ld)
  case (LoadRejects msg)
  with assms show ?thesis by (simp add: initialize_resume_load_rejected)
next
  case (LoadResolves n)
  with assms show ?thesis
    by (cases "errorCode n = 0")
      (simp_all add: initialize_resume_success initialize_resume_create_failed)
qed

lemma ready_world_eq:
  "ready_world =
     \<lparr>decoderWorker =
        \<lparr>decoder = Some 5247000, wasmModule = Some \<lparr>HEAPU8 = replicate 16777216 0\<rparr>,
         inputBuffer = Some 5265000, outputBuffer = Some 5269008\<rparr>,
      posted = [DecoderReady],
      native_calls =
        [Malloc 4, OpusDecoderCreate 48000 1 5246976, GetValue 5246976, Free (Some 5246976),
         Malloc 4000, Malloc 23040],
      console_error = [], pending_init = 0\<rparr>"
  by (simp add: ready_world_def run_def new_world_def example_init_def
      initialize_resume_success initialize_begin_def)

lemma ready_world_fields:
  "decoder (decoderWorker ready_world) = Some 5247000"
  "wasmModule (decoderWorker ready_world) = Some \<lparr>HEAPU8 = replicate 16777216 0\<rparr>"
  "inputBuffer (decoderWorker ready_world) = Some 5265000"
  "outputBuffer (decoderWorker ready_world) = Some 5269008"
  "initialized (decoderWorker ready_world)"
  "posted ready_world = [DecoderReady]"
  "pending_init ready_world = 0"
  by (simp_all add: ready_world_eq initialized_def)

subsection \<open>decode, configure and destroy, case by case\<close>

lemma length_read_f32 [simp]: "length (read_f32 heap off n) = n"
  by (simp add: read_f32_def)

text \<open>
  The bytes of what \<open>read_f32\<close> returns are the bytes of the region it reads: each bit
  of an element is the bit of the byte it comes from.
\<close>

lemma bit_word_rcat:
  "bit (word_rcat ws :: 'b::len word) n \<longleftrightarrow>
     n < LENGTH('b) \<and> n div LENGTH('a) < length ws
     \<and> bit (rev ws ! (n div LENGTH('a))) (n mod LENGTH('a))"
  for ws :: "'a::len word list"
  by (simp add: word_rcat_def bit_word_of_int_iff bit_horner_sum_uint_exp_iff)

lemma bit_word_rcat_bytes:
  "bit (word_rcat [b3, b2, b1, b0 :: byte] :: sample) n \<longleftrightarrow>
     n < 32 \<and> bit ([b0, b1, b2, b3] ! (n div 8)) (n mod 8)"
  by (auto simp: bit_word_rcat less_mult_imp_div_less)

lemma f32_bytes_word_rcat:
  "f32_bytes (word_rcat [b3, b2, b1, b0 :: byte]) = [b0, b1, b2, b3]"
proof -
  let ?x = "word_rcat [b3, b2, b1, b0] :: sample"
  have "ucast (drop_bit (8 * j) ?x) = [b0, b1, b2, b3] ! j" if "j < 4" for j
  proof (rule bit_word_eqI)
    fix m assume "m < LENGTH(8)"
    with that show "bit (ucast (drop_bit (8 * j) ?x) :: byte) m = bit ([b0, b1, b2, b3] ! j) m"
      by (simp add: bit_ucast_iff bit_drop_bit_eq bit_word_rcat_bytes)
  qed
  from this [of 0] this [of 1] this [of 2] this [of 3] show ?thesis
    by (simp add: f32_bytes_def)
qed

lemma take_four_drop:
  assumes "a + 4 \<le> length heap"
  shows "take 4 (drop a heap) = [heap ! a, heap ! (a + 1), heap ! (a + 2), heap ! (a + 3)]"
proof -
  have "length (take 4 (drop a heap)) = 4" using assms by simp
  moreover have "take 4 (drop a heap) ! i = heap ! (a + i)" if "i < 4" for i
    using that assms by simp
  ultimately show ?thesis
    by (intro nth_equalityI) (auto simp: less_Suc_eq numeral_eq_Suc)
qed

lemma f32_bytes_f32_at:
  "a + 4 \<le> length heap \<Longrightarrow> f32_bytes (f32_at heap a) = take 4 (drop a heap)"
  by (simp add: f32_at_def f32_bytes_word_rcat take_four_drop)

lemma read_f32_bytes:
  "off + 4 * n \<le> length heap \<Longrightarrow>
     concat (map f32_bytes (read_f32 heap off n)) = take (4 * n) (drop off heap)"
proof (induction n)
  case 0
  then show ?case by (simp add: read_f32_def)
next
  case (Suc n)
  then have ih: "concat (map f32_bytes (read_f32 heap off n)) = take (4 * n) (drop off heap)"
    and fits: "off + 4 * n + 4 \<le> length heap"
    by simp_all
  have "concat (map f32_bytes (read_f32 heap off (Suc n))) =
      concat (map f32_bytes (read_f32 heap off n)) @ f32_bytes (f32_at heap (off + 4 * n))"
    by (simp add: read_f32_def)
  also have "\<dots> = take (4 * n) (drop off heap) @ take 4 (drop (off + 4 * n) heap)"
    using ih fits by (simp add: f32_bytes_f32_at)
  also have "\<dots> = take (4 * n + 4) (drop off heap)"
    using take_add [of "4 * n" 4 "drop off heap"] by (simp add: add.commute)
  finally show ?case by (simp add: add.commute)
qed

lemma decode_not_initialized:
  "\<not> initialized (decoderWorker w) \<Longrightarrow> decode bs f w = (Inl NotInitialized, w)"
  by (auto simp: decode_def initialized_def Let_def split: option.splits)

lemma decode_input_rejected:
  assumes "initialized (decoderWorker w)"
    and "wasmModule (decoderWorker w) = Some m"
    and "\<not> view_ok (HEAPU8 m) (to_index (inputBuffer (decoderWorker w))) 1 (length bs)"
  shows "decode bs f w = (Inl RangeError, log_error RangeError w)"
  using assms by (simp add: decode_def initialized_def Let_def)

lemma decode_native_returns:
  assumes "initialized (decoderWorker w)"
    and "wasmModule (decoderWorker w) = Some m"
    and "view_ok (HEAPU8 m) (to_index (inputBuffer (decoderWorker w))) 1 (length bs)"
    and "f (write_bytes (HEAPU8 m) (nat (to_index (inputBuffer (decoderWorker w)))) bs) =
           DecodeReturns k heap"
  shows "decode bs f w =
     (let d = decoderWorker w;
          w2 = w\<lparr>decoderWorker := d\<lparr>wasmModule := Some \<lparr>HEAPU8 = heap\<rparr>\<rparr>,
                 native_calls := native_calls w @
                   [OpusDecodeFloat (decoder d) (inputBuffer d) (int (length bs))
                      (outputBuffer d) 5760 0]\<rparr>
      in if k < 0 then (Inl (DecodeFailed k), log_error (DecodeFailed k) w2)
         else if \<not> view_ok heap (to_index (outputBuffer d)) 4 (nat k)
         then (Inl RangeError, log_error RangeError w2)
         else (Inr (read_f32 heap (nat (to_index (outputBuffer d))) (nat k)), w2))"
  using assms
  by (simp add: decode_def initialized_def Let_def set_heap_def call_native_def maxFrameSize_def)

lemma write_bytes_payload:
  "off + length bs \<le> length heap \<Longrightarrow>
     take (length bs) (drop off (write_bytes heap off bs)) = bs"
  by (simp add: write_bytes_def)

lemma decode_reaches_native:
  assumes "initialized (decoderWorker w)"
    and "wasmModule (decoderWorker w) = Some m"
    and "view_ok (HEAPU8 m) (to_index (inputBuffer (decoderWorker w))) 1 (length bs)"
  shows "native_calls (snd (decode bs f w)) =
     native_calls w @
       [OpusDecodeFloat (decoder (decoderWorker w)) (inputBuffer (decoderWorker w))
          (int (length bs)) (outputBuffer (decoderWorker w)) 5760 0]"
  using assms
  by (simp add: decode_def initialized_def Let_def maxFrameSize_def
      split: native_decode.splits)

lemma decode_posted [simp]: "posted (snd (decode bs f w)) = posted w"
  by (simp add: decode_def Let_def set_heap_def split: option.splits native_decode.splits)

lemma decode_pending [simp]: "pending_init (snd (decode bs f w)) = pending_init w"
  by (simp add: decode_def Let_def set_heap_def split: option.splits native_decode.splits)

lemma decode_message_posted:
  "\<exists>m. posted (decode_message bs f w) = posted w @ [m]"
proof (cases "decode bs f w")
  case (Pair r w')
  then have "posted w' = posted w" using decode_posted [of bs f w] by simp
  with Pair show ?thesis by (cases r) (simp_all add: decode_message_def)
qed

lemma decode_message_pending: "pending_init (decode_message bs f w) = pending_init w"
proof (cases "decode bs f w")
  case (Pair r w')
  then have "pending_init w' = pending_init w" using decode_pending [of bs f w] by simp
  with Pair show ?thesis by (cases r) (simp_all add: decode_message_def)
qed

lemma configure_returns: "fst (configure cfg ctl w) = Inr ()"
  by (simp add: configure_def Let_def split: option.splits native_ctl.splits)

lemma configure_posted: "posted (snd (configure cfg ctl w)) = posted w"
  by (simp add: configure_def Let_def split: option.splits native_ctl.splits)

lemma configure_worker: "decoderWorker (snd (configure cfg ctl w)) = decoderWorker w"
  by (simp add: configure_def Let_def split: option.splits native_ctl.splits)

lemma configure_pending: "pending_init (snd (configure cfg ctl w)) = pending_init w"
  by (simp add: configure_def Let_def split: option.splits native_ctl.splits)

lemma destroy_not_initialized: "\<not> initialized (decoderWorker (destroy w))"
  by (simp add: destroy_def initialized_def)

lemma destroy_posted [simp]: "posted (destroy w) = posted w"
  by (simp add: destroy_def)

lemma destroy_pending [simp]: "pending_init (destroy w) = pending_init w"
  by (simp add: destroy_def)

section \<open>The claims\<close>

subsection \<open>C1: operations on a session that is not ready\<close>

text \<open>
  C1, as amended. Whenever the worker's own readiness test fails (the decoder handle is
  null or zero, or no module is loaded), \<^verbatim>\<open>decode\<close> fails with the
  "Decoder not initialized" error, which the handler posts as a decode-error, and makes
  no native call and no change; \<^verbatim>\<open>configure\<close> makes no native call and no
  change either, but returns normally: it raises no error. The readiness test fails in
  particular after an initialization whose create call reported a non-zero error code
  and returned the null handle.
\<close>

theorem guard_blocks_native_calls:
  "(\<not> initialized (decoderWorker w) \<longrightarrow>
      decode bs f w = (Inl NotInitialized, w)
      \<and> (bs \<noteq> [] \<longrightarrow>
           onmessage (Decode (Some bs)) env w = post_message (DecodeError NotInitialized) w)
      \<and> configure cfg ctl w = (Inr (), w)
      \<and> onmessage (Configure cfg) env w = w)
   \<and> (0 < pending_init w \<and> errorCode n \<noteq> 0 \<and> handle n = 0 \<longrightarrow>
        \<not> initialized (decoderWorker (initialize_resume (LoadResolves n) w)))"
  by (simp add: decode_not_initialized decode_message_def configure_def
      initialize_resume_create_failed initialized_def)

text \<open>
  The worker after a failed creation: a decode and a configure sent to it add nothing to
  the four native calls of the failed initialization.
\<close>

theorem guard_blocks_native_calls_witness:
  "\<not> initialized (decoderWorker
        (initialize_resume (LoadResolves example_failed_init)
           (onmessage Init example_native new_world)))
   \<and> posted (onmessage (Decode (Some [1, 2, 3])) example_native
         (initialize_resume (LoadResolves example_failed_init)
            (onmessage Init example_native new_world))) =
       [DecoderError (CreationFailed (- 7)), DecodeError NotInitialized]
   \<and> native_calls (onmessage (Decode (Some [1, 2, 3])) example_native
         (initialize_resume (LoadResolves example_failed_init)
            (onmessage Init example_native new_world))) =
       [Malloc 4, OpusDecoderCreate 48000 1 5246976, GetValue 5246976, Free (Some 5246976)]
   \<and> native_calls (onmessage (Configure (Some \<lparr>gain = Number (Finite 1)\<rparr>)) example_native
         (initialize_resume (LoadResolves example_failed_init)
            (onmessage Init example_native new_world))) =
       [Malloc 4, OpusDecoderCreate 48000 1 5246976, GetValue 5246976, Free (Some 5246976)]"
proof -
  let ?start = "onmessage Init example_native new_world"
  let ?failed = "initialize_resume (LoadResolves example_failed_init) ?start"
  have p: "0 < pending_init ?start \<and> errorCode example_failed_init \<noteq> 0
      \<and> handle example_failed_init = 0"
    by (simp add: example_failed_init_def)
  have calls: "native_calls ?failed =
      [Malloc 4, OpusDecoderCreate 48000 1 5246976, GetValue 5246976, Free (Some 5246976)]"
    and posts: "posted ?failed = [DecoderError (CreationFailed (- 7))]"
    by (simp_all add: initialize_resume_create_failed example_failed_init_def new_world_def)
  from p guard_blocks_native_calls [of ?start "[1, 2, 3]" _ example_native _ _ example_failed_init]
  have ni: "\<not> initialized (decoderWorker ?failed)" by blast
  with guard_blocks_native_calls [of ?failed "[1, 2, 3]" "opus_decode_float example_native"
      example_native "Some \<lparr>gain = Number (Finite 1)\<rparr>" "opus_decoder_ctl example_native"
      example_failed_init]
  have "onmessage (Decode (Some [1, 2, 3])) example_native ?failed =
          post_message (DecodeError NotInitialized) ?failed"
    and "onmessage (Configure (Some \<lparr>gain = Number (Finite 1)\<rparr>)) example_native ?failed = ?failed"
    by simp_all
  with ni calls posts show ?thesis by simp
qed

text \<open>
  The claim as written fails for \<^verbatim>\<open>configure\<close>: on a fresh worker, which is not
  ready, it returns normally, and the handler posts and logs nothing.
\<close>

theorem configure_uninitialized_counterexample:
  "\<not> initialized (decoderWorker new_world)
   \<and> configure (Some \<lparr>gain = Number (Finite 1)\<rparr>) (CtlReturns 0) new_world = (Inr (), new_world)
   \<and> posted (onmessage (Configure (Some \<lparr>gain = Number (Finite 1)\<rparr>)) example_native new_world) = []
   \<and> console_error (onmessage (Configure (Some \<lparr>gain = Number (Finite 1)\<rparr>)) example_native new_world) = []"
  by (simp add: configure_def initialized_def new_world_def)

subsection \<open>C2: a decode right after a reset\<close>

text \<open>
  C2 fails on the code. \<^verbatim>\<open>reset()\<close> destroys the decoder and frees both buffers,
  starts \<^verbatim>\<open>initialize()\<close> without awaiting it, and leaves \<^verbatim>\<open>this.decoder\<close> as
  it was (\<^verbatim>\<open>destroy()\<close> sets it to null). The handler then returns, and a decode
  message that the event loop delivers before the loader has answered passes the guard:
  the payload is written at the freed input pointer and the native decode is called on
  the destroyed handle, while the reinitialization is still pending.
\<close>

theorem reset_then_decode_reaches_released_handle:
  "pending_init
     (run [Message Init example_native, InitResumes (LoadResolves example_init),
           Message Reset example_native,
           Message (Decode (Some [1, 2, 3])) example_native] new_world) = 1
   \<and> native_calls
     (run [Message Init example_native, InitResumes (LoadResolves example_init),
           Message Reset example_native,
           Message (Decode (Some [1, 2, 3])) example_native] new_world) =
     [Malloc 4, OpusDecoderCreate 48000 1 5246976, GetValue 5246976, Free (Some 5246976),
      Malloc 4000, Malloc 23040,
      OpusDecoderDestroy (Some 5247000), Free (Some 5265000), Free (Some 5269008),
      OpusDecodeFloat (Some 5247000) (Some 5265000) 3 (Some 5269008) 5760 0]"
  by (simp add: run_def new_world_def example_init_def example_native_def
      initialize_resume_def reset_def initialized_def release_calls_def decode_message_def
      decode_def view_ok_def write_bytes_def maxFrameSize_def sampleRate_def channels_def
      Let_def)

subsection \<open>C3: packet loss\<close>

text \<open>
  C3. A decode message whose payload is absent or has length zero makes no native call
  and leaves the session as it is; the handler posts one decoded-audio message of 480
  samples, all 0.0, with isPacketLoss = true. This holds in every state and whatever the
  native layer would have answered.
\<close>

theorem packet_loss_silence:
  assumes "data = None \<or> data = Some []"
  shows "native_calls (onmessage (Decode data) env w) = native_calls w
       \<and> decoderWorker (onmessage (Decode data) env w) = decoderWorker w
       \<and> posted (onmessage (Decode data) env w) =
           posted w @ [DecodedAudio \<lparr>audioData = replicate 480 0, samplesDecoded = None,
                                     isPacketLoss = Some True\<rparr>]"
  using assms by (auto simp: silence_message_def)

theorem packet_loss_silence_witness:
  "native_calls (onmessage (Decode (Some [])) example_native ready_world) =
     native_calls ready_world
   \<and> posted (onmessage (Decode None) example_native ready_world) =
       [DecoderReady,
        DecodedAudio \<lparr>audioData = replicate 480 0, samplesDecoded = None,
                      isPacketLoss = Some True\<rparr>]"
  using packet_loss_silence [of "Some []" example_native ready_world]
    packet_loss_silence [of None example_native ready_world]
  by (simp add: ready_world_eq)

subsection \<open>C4: a failed decode does not poison the session\<close>

text \<open>
  C4. In a ready session, when the payload lies inside the linear memory (so that the
  native decode is reached) and the native decode returns a negative code, decode fails
  with the decode failure carrying that code, which the handler posts as a decode-error.
  The handle, the module and both buffer pointers are as before, the readiness test
  still passes, the only native call made is the decode itself, and no initialization
  is started. A next decode whose native call returns a count \<open>k \<ge> 0\<close>, with payload
  and decoded samples inside the linear memory, returns the \<open>k\<close> decoded samples.
\<close>

theorem decode_failure_keeps_session:
  assumes "initialized (decoderWorker w)"
    and "wasmModule (decoderWorker w) = Some m"
    and "view_ok (HEAPU8 m) (to_index (inputBuffer (decoderWorker w))) 1 (length bs)"
    and "f (write_bytes (HEAPU8 m) (nat (to_index (inputBuffer (decoderWorker w)))) bs) =
           DecodeReturns code heap"
    and "code < 0"
  shows "fst (decode bs f w) = Inl (DecodeFailed code)
    \<and> decoderWorker (snd (decode bs f w)) =
        (decoderWorker w)\<lparr>wasmModule := Some \<lparr>HEAPU8 = heap\<rparr>\<rparr>
    \<and> initialized (decoderWorker (snd (decode bs f w)))
    \<and> native_calls (snd (decode bs f w)) =
        native_calls w @
          [OpusDecodeFloat (decoder (decoderWorker w)) (inputBuffer (decoderWorker w))
             (int (length bs)) (outputBuffer (decoderWorker w)) 5760 0]
    \<and> pending_init (snd (decode bs f w)) = pending_init w
    \<and> (bs \<noteq> [] \<longrightarrow> opus_decode_float env = f \<longrightarrow>
         posted (onmessage (Decode (Some bs)) env w) =
           posted w @ [DecodeError (DecodeFailed code)])
    \<and> (view_ok heap (to_index (inputBuffer (decoderWorker w))) 1 (length bs')
        \<and> g (write_bytes heap (nat (to_index (inputBuffer (decoderWorker w)))) bs') =
             DecodeReturns k heap'
        \<and> 0 \<le> k
        \<and> view_ok heap' (to_index (outputBuffer (decoderWorker w))) 4 (nat k) \<longrightarrow>
        fst (decode bs' g (snd (decode bs f w))) =
          Inr (read_f32 heap' (nat (to_index (outputBuffer (decoderWorker w)))) (nat k)))"
proof -
  let ?after = "snd (decode bs f w)"
  have first: "decode bs f w =
      (Inl (DecodeFailed code),
       log_error (DecodeFailed code)
         (w\<lparr>decoderWorker := (decoderWorker w)\<lparr>wasmModule := Some \<lparr>HEAPU8 = heap\<rparr>\<rparr>,
            native_calls := native_calls w @
              [OpusDecodeFloat (decoder (decoderWorker w)) (inputBuffer (decoderWorker w))
                 (int (length bs)) (outputBuffer (decoderWorker w)) 5760 0]\<rparr>))"
    using decode_native_returns [of w m bs f code heap] assms by (simp add: Let_def)
  have dw: "decoderWorker ?after = (decoderWorker w)\<lparr>wasmModule := Some \<lparr>HEAPU8 = heap\<rparr>\<rparr>"
    by (simp add: first)
  have still: "initialized (decoderWorker ?after)"
    using assms(1) by (simp add: dw initialized_def)
  have second: "fst (decode bs' g ?after) =
        Inr (read_f32 heap' (nat (to_index (outputBuffer (decoderWorker w)))) (nat k))"
    if "view_ok heap (to_index (inputBuffer (decoderWorker w))) 1 (length bs')"
      and "g (write_bytes heap (nat (to_index (inputBuffer (decoderWorker w)))) bs') =
             DecodeReturns k heap'"
      and "0 \<le> k"
      and "view_ok heap' (to_index (outputBuffer (decoderWorker w))) 4 (nat k)"
    using decode_native_returns [of ?after "\<lparr>HEAPU8 = heap\<rparr>" bs' g k heap'] still that
    by (simp add: dw Let_def)
  show ?thesis
    using still second by (auto simp: first decode_message_def)
qed

text \<open>
  On the ready example: the first packet fails with code -4, the session stays ready,
  and the next packet decodes to its two samples.
\<close>

theorem decode_failure_keeps_session_witness:
  "fst (decode [1, 2, 3] (opus_decode_float failing_native) ready_world) = Inl (DecodeFailed (- 4))
   \<and> initialized (decoderWorker (snd (decode [1, 2, 3] (opus_decode_float failing_native) ready_world)))
   \<and> posted (onmessage (Decode (Some [1, 2, 3])) failing_native ready_world) =
       [DecoderReady, DecodeError (DecodeFailed (- 4))]
   \<and> fst (decode [4, 5, 6] (opus_decode_float example_native)
         (snd (decode [1, 2, 3] (opus_decode_float failing_native) ready_world))) =
       Inr [1065353216, 1073741824]"
proof -
  let ?heap1 = "write_bytes (replicate 16777216 0) 5265000 [1, 2, 3]"
  let ?heap2 = "write_bytes (write_bytes ?heap1 5265000 [4, 5, 6]) 5269008
                  [0, 0, 128, 63, 0, 0, 0, 64]"
  have h3: "view_ok (HEAPU8 \<lparr>HEAPU8 = replicate 16777216 0\<rparr>)
              (to_index (inputBuffer (decoderWorker ready_world))) 1 (length [1, 2, 3 :: byte])"
    by (simp add: ready_world_fields view_ok_def)
  have h4: "opus_decode_float failing_native
              (write_bytes (HEAPU8 \<lparr>HEAPU8 = replicate 16777216 0\<rparr>)
                 (nat (to_index (inputBuffer (decoderWorker ready_world)))) [1, 2, 3]) =
            DecodeReturns (- 4) ?heap1"
    by (simp add: ready_world_fields failing_native_def)
  have h5: "(- 4 :: int) < 0" by simp
  have g1: "view_ok ?heap1 (to_index (inputBuffer (decoderWorker ready_world))) 1
              (length [4, 5, 6 :: byte])"
    by (simp add: ready_world_fields view_ok_def write_bytes_def)
  have g2: "opus_decode_float example_native
              (write_bytes ?heap1 (nat (to_index (inputBuffer (decoderWorker ready_world))))
                 [4, 5, 6]) = DecodeReturns 2 ?heap2"
    by (simp add: ready_world_fields example_native_def)
  have g3: "view_ok ?heap2 (to_index (outputBuffer (decoderWorker ready_world))) 4 (nat 2)"
    by (simp add: ready_world_fields view_ok_def write_bytes_def)
  have s: "read_f32 ?heap2 (nat (to_index (outputBuffer (decoderWorker ready_world)))) (nat 2)
            = [1065353216, 1073741824]"
    by (simp add: ready_world_fields write_bytes_def read_f32_def f32_at_def nth_append
        word_rcat_def upt_rec)
  note t = decode_failure_keeps_session [of ready_world "\<lparr>HEAPU8 = replicate 16777216 0\<rparr>"
        "[1, 2, 3]" "opus_decode_float failing_native" "- 4" ?heap1 failing_native
        "[4, 5, 6]" "opus_decode_float example_native" 2 ?heap2,
        OF ready_world_fields(5) ready_world_fields(2) h3 h4 h5]
  from t have a: "fst (decode [1, 2, 3] (opus_decode_float failing_native) ready_world) =
      Inl (DecodeFailed (- 4))"
    and b: "initialized (decoderWorker
      (snd (decode [1, 2, 3] (opus_decode_float failing_native) ready_world)))"
    by blast+
  from t have c: "posted (onmessage (Decode (Some [1, 2, 3])) failing_native ready_world) =
      posted ready_world @ [DecodeError (DecodeFailed (- 4))]"
    by simp
  from t g1 g2 g3 have d: "fst (decode [4, 5, 6] (opus_decode_float example_native)
         (snd (decode [1, 2, 3] (opus_decode_float failing_native) ready_world))) =
       Inr (read_f32 ?heap2 (nat (to_index (outputBuffer (decoderWorker ready_world)))) (nat 2))"
    by simp
  from a b c d show ?thesis
    unfolding s by (simp add: ready_world_fields(6))
qed

subsection \<open>C5: events per command\<close>

text \<open>
  C5, as amended. A decode message and a destroy message each post exactly one message
  before the handler returns. An init message posts nothing in the handler and suspends
  one initialization; each suspended initialization posts exactly one message
  (decoder-ready or decoder-error) when it resumes. A reset message posts nothing in
  the handler; it suspends one initialization when the readiness test passes and does
  nothing at all otherwise. A configure message and a message of unknown type post
  nothing, now or later.
\<close>

theorem events_per_command:
  "(\<exists>m. posted (onmessage (Decode d) env w) = posted w @ [m])
   \<and> pending_init (onmessage (Decode d) env w) = pending_init w
   \<and> posted (onmessage Destroy env w) = posted w @ [Destroyed]
   \<and> pending_init (onmessage Destroy env w) = pending_init w
   \<and> posted (onmessage (Configure cfg) env w) = posted w
   \<and> pending_init (onmessage (Configure cfg) env w) = pending_init w
   \<and> posted (onmessage (Other t) env w) = posted w
   \<and> pending_init (onmessage (Other t) env w) = pending_init w
   \<and> posted (onmessage Init env w) = posted w
   \<and> pending_init (onmessage Init env w) = pending_init w + 1
   \<and> posted (onmessage Reset env w) = posted w
   \<and> pending_init (onmessage Reset env w) =
       pending_init w + (if initialized (decoderWorker w) then 1 else 0)
   \<and> (0 < pending_init w \<longrightarrow>
        pending_init (initialize_resume ld w) = pending_init w - 1
        \<and> (posted (initialize_resume ld w) = posted w @ [DecoderReady]
           \<or> (\<exists>e. posted (initialize_resume ld w) = posted w @ [DecoderError e])))"
proof -
  have dec: "(\<exists>m. posted (onmessage (Decode d) env w) = posted w @ [m])
     \<and> pending_init (onmessage (Decode d) env w) = pending_init w"
  proof (cases d)
    case None
    then show ?thesis by simp
  next
    case (Some bs)
    then show ?thesis
      using decode_message_posted [of bs "opus_decode_float env" w]
      by (simp add: decode_message_pending)
  qed
  have rst: "posted (onmessage Reset env w) = posted w
     \<and> pending_init (onmessage Reset env w) =
         pending_init w + (if initialized (decoderWorker w) then 1 else 0)"
    by (simp add: reset_def)
  from dec rst initialize_resume_posts_one [of w ld] show ?thesis
    by (simp add: configure_posted configure_pending)
qed

text \<open>
  On the ready example: a decode and a destroy are answered at once, a reset starts one
  initialization, and its completion is the one message that answers it.
\<close>

theorem events_per_command_witness:
  "length (posted (onmessage (Decode (Some [1, 2, 3])) example_native ready_world)) = 2
   \<and> posted (onmessage Destroy example_native ready_world) = [DecoderReady, Destroyed]
   \<and> pending_init (onmessage Reset example_native ready_world) = 1
   \<and> pending_init (initialize_resume (LoadResolves example_reinit)
        (onmessage Reset example_native ready_world)) = 0
   \<and> length (posted (initialize_resume (LoadResolves example_reinit)
        (onmessage Reset example_native ready_world))) = 2"
proof -
  note a = events_per_command [of "Some [1, 2, 3]" example_native ready_world
      "Some \<lparr>gain = Number (Finite 1)\<rparr>" "''ping''" "LoadResolves example_reinit"]
  have b: "0 < pending_init (onmessage Reset example_native ready_world)"
    using a by (simp add: ready_world_fields)
  note c = events_per_command [of "Some [1, 2, 3]" example_native
      "onmessage Reset example_native ready_world"
      "Some \<lparr>gain = Number (Finite 1)\<rparr>" "''ping''" "LoadResolves example_reinit"]
  have d: "posted (onmessage Reset example_native ready_world) = [DecoderReady]"
    using a by (simp add: ready_world_fields)
  have e: "length (posted (onmessage (Decode (Some [1, 2, 3])) example_native ready_world)) = 2"
    using a by (auto simp: ready_world_fields)
  have f: "pending_init (initialize_resume (LoadResolves example_reinit)
        (onmessage Reset example_native ready_world)) = 0
      \<and> length (posted (initialize_resume (LoadResolves example_reinit)
        (onmessage Reset example_native ready_world))) = 2"
    using b c d a by (auto simp: ready_world_fields)
  from a e f show ?thesis by (simp add: ready_world_fields)
qed

text \<open>
  The claim as written fails: after init, a configure and a message of unknown type,
  only the answer to the init has been posted; and a reset sent to a fresh worker posts
  nothing and starts nothing.
\<close>

theorem configure_unacknowledged_counterexample:
  "posted (run [Message Init example_native, InitResumes (LoadResolves example_init),
                Message (Configure (Some \<lparr>gain = Number (Finite 1)\<rparr>)) example_native,
                Message (Other ''ping'') example_native] new_world) = [DecoderReady]
   \<and> posted (onmessage Reset example_native new_world) = []
   \<and> pending_init (onmessage Reset example_native new_world) = 0"
  by (simp add: run_def new_world_def example_init_def example_native_def
      initialize_resume_def reset_def initialized_def configure_def Let_def)

subsection \<open>C6: the result of a successful decode\<close>

text \<open>
  C6. When decode returns a result, the native decode returned a count \<open>k \<ge> 0\<close>, and
  the result is a list of exactly \<open>k\<close> samples that is a bit-for-bit copy of the output
  region: the bytes of the result, four per sample, are the \<open>4 * k\<close> bytes of the memory
  the native call left, from the output pointer on, and element \<open>i\<close> is the Float32
  element \<open>i\<close> of that region, which lies inside the linear memory. The native call was
  given maxFrameSize = 5760 as its capacity, so a native layer that returns at most the
  capacity it was given yields at most 5760 samples. The result is a value of its own:
  later writes to the memory do not reach it.
\<close>

theorem decode_result_samples:
  assumes "decode bs f w = (Inr audio, w')"
    and "wasmModule (decoderWorker w) = Some m"
    and "f (write_bytes (HEAPU8 m) (nat (to_index (inputBuffer (decoderWorker w)))) bs) =
           DecodeReturns k heap"
  shows "0 \<le> k
    \<and> length audio = nat k
    \<and> concat (map f32_bytes audio) =
        take (4 * nat k) (drop (nat (to_index (outputBuffer (decoderWorker w)))) heap)
    \<and> audio = read_f32 heap (nat (to_index (outputBuffer (decoderWorker w)))) (nat k)
    \<and> (\<forall>i < nat k. audio ! i =
          f32_at heap (nat (to_index (outputBuffer (decoderWorker w))) + 4 * i))
    \<and> nat (to_index (outputBuffer (decoderWorker w))) + 4 * length audio \<le> length heap
    \<and> native_calls w' =
        native_calls w @
          [OpusDecodeFloat (decoder (decoderWorker w)) (inputBuffer (decoderWorker w))
             (int (length bs)) (outputBuffer (decoderWorker w)) maxFrameSize 0]
    \<and> maxFrameSize = 5760
    \<and> (k \<le> maxFrameSize \<longrightarrow> length audio \<le> 5760)"
proof -
  let ?out = "nat (to_index (outputBuffer (decoderWorker w)))"
  from assms have nonneg: "0 \<le> k"
    and audio: "audio = read_f32 heap ?out (nat k)"
    and inside: "?out + 4 * nat k \<le> length heap"
    and calls: "native_calls w' =
        native_calls w @
          [OpusDecodeFloat (decoder (decoderWorker w)) (inputBuffer (decoderWorker w))
             (int (length bs)) (outputBuffer (decoderWorker w)) maxFrameSize 0]"
    by (auto simp: decode_def Let_def view_ok_def split: if_splits)
  from audio inside have bytes: "concat (map f32_bytes audio) = take (4 * nat k) (drop ?out heap)"
    by (simp add: read_f32_bytes)
  from audio have elems: "\<forall>i < nat k. audio ! i = f32_at heap (?out + 4 * i)"
    by (simp add: read_f32_def)
  from nonneg audio inside calls bytes elems show ?thesis
    by (auto simp: maxFrameSize_def)
qed

text \<open>
  On the ready example, with a native layer that writes the bytes
  219, 15, 73, 64, 1, 2, 3, 4 to the output region, a three-byte packet decodes to the
  two samples with exactly these bytes: 0x40490FDB and 0x04030201.
\<close>

theorem decode_result_samples_witness:
  "fst (decode [1, 2, 3] (opus_decode_float example_native_pi) ready_world) =
     Inr [1078530011, 67305985]
   \<and> concat (map f32_bytes [1078530011, 67305985]) = [219, 15, 73, 64, 1, 2, 3, 4]
   \<and> length [1078530011, 67305985 :: sample] = nat 2
   \<and> length [1078530011, 67305985 :: sample] \<le> 5760
   \<and> native_calls (snd (decode [1, 2, 3] (opus_decode_float example_native_pi) ready_world)) =
       native_calls ready_world @
         [OpusDecodeFloat (Some 5247000) (Some 5265000) 3 (Some 5269008) 5760 0]"
proof -
  let ?heap = "write_bytes (write_bytes (replicate 16777216 0) 5265000 [1, 2, 3]) 5269008
                 [219, 15, 73, 64, 1, 2, 3, 4]"
  let ?result = "decode [1, 2, 3] (opus_decode_float example_native_pi) ready_world"
  have h3: "view_ok (HEAPU8 \<lparr>HEAPU8 = replicate 16777216 0\<rparr>)
              (to_index (inputBuffer (decoderWorker ready_world))) 1 (length [1, 2, 3 :: byte])"
    by (simp add: ready_world_fields view_ok_def)
  have h4: "opus_decode_float example_native_pi
              (write_bytes (HEAPU8 \<lparr>HEAPU8 = replicate 16777216 0\<rparr>)
                 (nat (to_index (inputBuffer (decoderWorker ready_world)))) [1, 2, 3]) =
            DecodeReturns 2 ?heap"
    by (simp add: ready_world_fields example_native_pi_def)
  have v: "view_ok ?heap (to_index (outputBuffer (decoderWorker ready_world))) 4 (nat 2)"
    by (simp add: ready_world_fields view_ok_def write_bytes_def)
  have s: "read_f32 ?heap (nat (to_index (outputBuffer (decoderWorker ready_world)))) (nat 2)
            = [1078530011, 67305985]"
    by (simp add: ready_world_fields write_bytes_def read_f32_def f32_at_def nth_append
        word_rcat_def upt_rec)
  have region: "take (4 * nat 2)
      (drop (nat (to_index (outputBuffer (decoderWorker ready_world)))) ?heap) =
      [219, 15, 73, 64, 1, 2, 3, 4]"
    by (simp add: ready_world_fields write_bytes_def)
  have r: "fst ?result = Inr [1078530011, 67305985]"
    using decode_native_returns [of ready_world "\<lparr>HEAPU8 = replicate 16777216 0\<rparr>" "[1, 2, 3]"
        "opus_decode_float example_native_pi" 2 ?heap,
        OF ready_world_fields(5) ready_world_fields(2) h3 h4]
      v s by (simp add: Let_def)
  then have p: "?result = (Inr [1078530011, 67305985], snd ?result)"
    by (metis prod.collapse)
  note t = decode_result_samples [OF p ready_world_fields(2) h4]
  from t have bytes: "concat (map f32_bytes [1078530011, 67305985]) =
      take (4 * nat 2) (drop (nat (to_index (outputBuffer (decoderWorker ready_world)))) ?heap)"
    by blast
  from t have calls: "native_calls (snd ?result) =
        native_calls ready_world @
          [OpusDecodeFloat (decoder (decoderWorker ready_world))
             (inputBuffer (decoderWorker ready_world)) (int (length [1, 2, 3 :: byte]))
             (outputBuffer (decoderWorker ready_world)) maxFrameSize 0]"
    by blast
  from r bytes calls show ?thesis
    unfolding region by (simp add: ready_world_fields maxFrameSize_def)
qed

subsection \<open>C7: configuration\<close>

text \<open>
  C7, as amended. When the worker's readiness test passes, a configure whose update
  carries a finite gain \<open>g\<close> with \<open>\<bar>g * 256\<bar> < 2 ^ 1024\<close> calls the native control
  primitive once, with the decoder handle, request 4034 and the integer
  \<open>round (g * 256)\<close>; when the product overflows, the value passed is an infinity, not
  an integer. A trap of the control call is logged. When the readiness test fails,
  configure changes nothing. In every state and whatever the native call does,
  configure returns normally, posts no message, leaves every field of the session as it
  was and starts no initialization.
\<close>

theorem configure_gain:
  "(initialized (decoderWorker w) \<longrightarrow>
      (\<bar>g * 256\<bar> < 2 ^ 1024 \<longrightarrow>
         native_calls (onmessage (Configure (Some \<lparr>gain = Number (Finite g)\<rparr>)) env w) =
           native_calls w @
             [OpusDecoderCtl (decoder (decoderWorker w)) 4034 (Finite (of_int (round (g * 256))))])
      \<and> (2 ^ 1024 \<le> \<bar>g * 256\<bar> \<longrightarrow>
           native_calls (onmessage (Configure (Some \<lparr>gain = Number (Finite g)\<rparr>)) env w) =
             native_calls w @
               [OpusDecoderCtl (decoder (decoderWorker w)) 4034
                  (if 0 < g then PosInfinity else NegInfinity)])
      \<and> (opus_decoder_ctl env = CtlTraps msg \<longrightarrow>
           console_error (onmessage (Configure (Some \<lparr>gain = Number (Finite g)\<rparr>)) env w) =
             console_error w @ [Thrown msg]))
   \<and> (\<not> initialized (decoderWorker w) \<longrightarrow> onmessage (Configure cfg) env w = w)
   \<and> fst (configure cfg ctl w) = Inr ()
   \<and> posted (onmessage (Configure cfg) env w) = posted w
   \<and> decoderWorker (onmessage (Configure cfg) env w) = decoderWorker w
   \<and> pending_init (onmessage (Configure cfg) env w) = pending_init w"
proof -
  have in_range: "native_calls (onmessage (Configure (Some \<lparr>gain = Number (Finite g)\<rparr>)) env w) =
        native_calls w @
          [OpusDecoderCtl (decoder (decoderWorker w)) 4034 (Finite (of_int (round (g * 256))))]"
    if "initialized (decoderWorker w)" and "\<bar>g * 256\<bar> < 2 ^ 1024"
    using that
    by (auto simp: configure_def OPUS_SET_GAIN_REQUEST_def Let_def split: native_ctl.splits)
  have overflow: "native_calls (onmessage (Configure (Some \<lparr>gain = Number (Finite g)\<rparr>)) env w) =
        native_calls w @
          [OpusDecoderCtl (decoder (decoderWorker w)) 4034
             (if 0 < g then PosInfinity else NegInfinity)]"
    if "initialized (decoderWorker w)" and "2 ^ 1024 \<le> \<bar>g * 256\<bar>"
  proof (cases "0 < g")
    case True
    with that show ?thesis
      by (auto simp: configure_def OPUS_SET_GAIN_REQUEST_def Let_def split: native_ctl.splits)
  next
    case False
    then have "g * 256 \<le> 0" by (simp add: mult_le_0_iff)
    with that False show ?thesis
      by (auto simp: configure_def OPUS_SET_GAIN_REQUEST_def Let_def split: native_ctl.splits)
  qed
  have trap: "console_error (onmessage (Configure (Some \<lparr>gain = Number (Finite g)\<rparr>)) env w) =
        console_error w @ [Thrown msg]"
    if "initialized (decoderWorker w)" and "opus_decoder_ctl env = CtlTraps msg"
    using that by (simp add: configure_def Let_def)
  have idle: "onmessage (Configure cfg) env w = w" if "\<not> initialized (decoderWorker w)"
    using that by (simp add: configure_def)
  from in_range overflow trap idle show ?thesis
    by (simp add: configure_returns configure_posted configure_worker configure_pending)
qed

text \<open>
  On the ready example with gain 1.5 and a control call that traps: one control call
  with value 384, the trap logged, nothing posted. On a fresh worker: no change.
\<close>

theorem configure_gain_witness:
  "initialized (decoderWorker ready_world)
   \<and> native_calls (onmessage (Configure (Some \<lparr>gain = Number (Finite (3 / 2))\<rparr>))
        failing_native ready_world) =
        native_calls ready_world @ [OpusDecoderCtl (Some 5247000) 4034 (Finite 384)]
   \<and> console_error (onmessage (Configure (Some \<lparr>gain = Number (Finite (3 / 2))\<rparr>))
        failing_native ready_world) = [Thrown ''unreachable'']
   \<and> posted (onmessage (Configure (Some \<lparr>gain = Number (Finite (3 / 2))\<rparr>))
        failing_native ready_world) = [DecoderReady]
   \<and> \<not> initialized (decoderWorker new_world)
   \<and> onmessage (Configure (Some \<lparr>gain = Number (Finite (3 / 2))\<rparr>)) failing_native new_world =
        new_world"
proof -
  let ?cfg = "Some \<lparr>gain = Number (Finite (3 / 2))\<rparr>"
  have ce: "console_error ready_world = []" by (simp add: ready_world_eq)
  have tr: "opus_decoder_ctl failing_native = CtlTraps ''unreachable''"
    by (simp add: failing_native_def)
  have nw: "\<not> initialized (decoderWorker new_world)"
    by (simp add: new_world_def initialized_def)
  have fin: "\<bar>(3 / 2 :: rat) * 256\<bar> < 2 ^ 1024" by simp
  have r: "round ((3 / 2 :: rat) * 256) = 384" by simp
  note a = configure_gain [of ready_world "3 / 2" failing_native "''unreachable''"
      ?cfg "CtlTraps ''unreachable''"]
  note b = configure_gain [of new_world "3 / 2" failing_native "''unreachable''"
      ?cfg "CtlTraps ''unreachable''"]
  from b nw have c: "onmessage (Configure ?cfg) failing_native new_world = new_world"
    by blast
  from a fin ready_world_fields(5)
  have d: "native_calls (onmessage (Configure ?cfg) failing_native ready_world) =
        native_calls ready_world @
          [OpusDecoderCtl (decoder (decoderWorker ready_world)) 4034
             (Finite (of_int (round ((3 / 2 :: rat) * 256))))]"
    by blast
  from a tr ready_world_fields(5)
  have e: "console_error (onmessage (Configure ?cfg) failing_native ready_world) =
             console_error ready_world @ [Thrown ''unreachable'']"
    and f: "posted (onmessage (Configure ?cfg) failing_native ready_world) = posted ready_world"
    by blast+
  from c d e f nw show ?thesis
    unfolding r by (simp add: ce ready_world_fields)
qed

text \<open>
  The claim as written fails in two places. For the gain \<open>2 ^ 1023\<close>, a finite double,
  the product with 256 overflows and the control primitive is called with Infinity,
  not with an integer. And a session that is not ready is not always left alone: after
  a reset whose reinitialization is still pending, the guard passes on the destroyed
  handle and configure calls the control primitive on it.
\<close>

theorem configure_gain_counterexample:
  "native_calls (onmessage (Configure (Some \<lparr>gain = Number (Finite (2 ^ 1023))\<rparr>))
      example_native ready_world) =
     native_calls ready_world @ [OpusDecoderCtl (Some 5247000) 4034 PosInfinity]
   \<and> pending_init
       (run [Message Init example_native, InitResumes (LoadResolves example_init),
             Message Reset example_native] new_world) = 1
   \<and> native_calls
       (run [Message Init example_native, InitResumes (LoadResolves example_init),
             Message Reset example_native,
             Message (Configure (Some \<lparr>gain = Number (Finite 1)\<rparr>)) example_native]
          new_world) =
       [Malloc 4, OpusDecoderCreate 48000 1 5246976, GetValue 5246976, Free (Some 5246976),
        Malloc 4000, Malloc 23040,
        OpusDecoderDestroy (Some 5247000), Free (Some 5265000), Free (Some 5269008),
        OpusDecoderCtl (Some 5247000) 4034 (Finite 256)]"
  by (simp add: run_def new_world_def example_init_def example_native_def ready_world_eq
      initialize_resume_def reset_def initialized_def release_calls_def configure_def
      OPUS_SET_GAIN_REQUEST_def maxFrameSize_def sampleRate_def channels_def Let_def)

subsection \<open>C8: destroy twice\<close>

text \<open>
  C8. In every state, two destroy messages in a row post two destroyed messages; the
  second makes no native call and changes nothing else: it only posts its
  acknowledgment.
\<close>

theorem destroy_idempotent:
  "posted (onmessage Destroy env' (onmessage Destroy env w)) = posted w @ [Destroyed, Destroyed]
   \<and> native_calls (onmessage Destroy env' (onmessage Destroy env w)) =
       native_calls (onmessage Destroy env w)
   \<and> onmessage Destroy env' (onmessage Destroy env w) =
       post_message Destroyed (onmessage Destroy env w)"
proof -
  have "\<not> initialized (decoderWorker (post_message Destroyed (destroy w)))"
    using destroy_not_initialized [of w] by simp
  then have "destroy (post_message Destroyed (destroy w)) = post_message Destroyed (destroy w)"
    by (simp add: destroy_def)
  then show ?thesis by simp
qed

text \<open>
  On the ready example the decoder is destroyed and both buffers are freed once.
\<close>

theorem destroy_idempotent_witness:
  "posted (onmessage Destroy example_native (onmessage Destroy example_native ready_world)) =
     [DecoderReady, Destroyed, Destroyed]
   \<and> native_calls (onmessage Destroy example_native (onmessage Destroy example_native ready_world)) =
     [Malloc 4, OpusDecoderCreate 48000 1 5246976, GetValue 5246976, Free (Some 5246976),
      Malloc 4000, Malloc 23040,
      OpusDecoderDestroy (Some 5247000), Free (Some 5265000), Free (Some 5269008)]"
proof -
  have "native_calls (onmessage Destroy example_native ready_world) =
     [Malloc 4, OpusDecoderCreate 48000 1 5246976, GetValue 5246976, Free (Some 5246976),
      Malloc 4000, Malloc 23040,
      OpusDecoderDestroy (Some 5247000), Free (Some 5265000), Free (Some 5269008)]"
    by (simp add: destroy_def ready_world_fields release_calls_def) (simp add: ready_world_eq)
  with destroy_idempotent [of example_native example_native ready_world] show ?thesis
    by (simp add: ready_world_fields)
qed

subsection \<open>C9: the payload length is not compared with the staging capacity\<close>

text \<open>
  C9, as amended. In a session that passes the readiness test, decode never compares
  the payload length with the 4000 bytes allocated for staging. Every payload that
  lies inside the linear memory from the input pointer on, also one longer than 4000
  bytes, is copied in full at the input pointer and handed to the native decode with
  its full length, and the call's result is returned as for any other payload. Only a
  payload that would end beyond the linear memory is rejected: the typed-array view
  cannot be built, and decode fails with a RangeError before any copy or native call.
  A non-empty payload always reaches decode.
\<close>

theorem decode_copies_whole_payload:
  assumes "initialized (decoderWorker w)"
    and "wasmModule (decoderWorker w) = Some m"
  shows "(view_ok (HEAPU8 m) (to_index (inputBuffer (decoderWorker w))) 1 (length bs) \<longrightarrow>
        take (length bs)
          (drop (nat (to_index (inputBuffer (decoderWorker w))))
             (write_bytes (HEAPU8 m) (nat (to_index (inputBuffer (decoderWorker w)))) bs)) = bs
        \<and> native_calls (snd (decode bs f w)) =
            native_calls w @
              [OpusDecodeFloat (decoder (decoderWorker w)) (inputBuffer (decoderWorker w))
                 (int (length bs)) (outputBuffer (decoderWorker w)) 5760 0]
        \<and> (f (write_bytes (HEAPU8 m) (nat (to_index (inputBuffer (decoderWorker w)))) bs) =
              DecodeReturns k heap
            \<and> 0 \<le> k
            \<and> view_ok heap (to_index (outputBuffer (decoderWorker w))) 4 (nat k) \<longrightarrow>
            fst (decode bs f w) =
              Inr (read_f32 heap (nat (to_index (outputBuffer (decoderWorker w)))) (nat k))))
    \<and> (\<not> view_ok (HEAPU8 m) (to_index (inputBuffer (decoderWorker w))) 1 (length bs) \<longrightarrow>
        decode bs f w = (Inl RangeError, log_error RangeError w))
    \<and> (bs \<noteq> [] \<longrightarrow>
        onmessage (Decode (Some bs)) env w = decode_message bs (opus_decode_float env) w)"
proof -
  have copied: "take (length bs)
          (drop (nat (to_index (inputBuffer (decoderWorker w))))
             (write_bytes (HEAPU8 m) (nat (to_index (inputBuffer (decoderWorker w)))) bs)) = bs"
    if "view_ok (HEAPU8 m) (to_index (inputBuffer (decoderWorker w))) 1 (length bs)"
    using that by (simp add: view_ok_def write_bytes_payload)
  have result: "fst (decode bs f w) =
        Inr (read_f32 heap (nat (to_index (outputBuffer (decoderWorker w)))) (nat k))"
    if "view_ok (HEAPU8 m) (to_index (inputBuffer (decoderWorker w))) 1 (length bs)"
      and "f (write_bytes (HEAPU8 m) (nat (to_index (inputBuffer (decoderWorker w)))) bs) =
              DecodeReturns k heap"
      and "0 \<le> k"
      and "view_ok heap (to_index (outputBuffer (decoderWorker w))) 4 (nat k)"
    using decode_native_returns [of w m bs f k heap] assms that by (simp add: Let_def)
  show ?thesis
    using copied result decode_reaches_native [of w m bs f] decode_input_rejected [of w m bs f]
      assms
    by auto
qed

text \<open>
  On the ready example, a payload of 5000 bytes is staged in full: it runs over the
  4000-byte input region (5265000 to 5269000) and into the output region at 5269008,
  byte 5269999 of the memory is payload, and the native decode is called with
  length 5000.
\<close>

theorem decode_copies_whole_payload_witness:
  "native_calls (snd (decode (replicate 5000 7) (opus_decode_float example_native) ready_world)) =
     native_calls ready_world @
       [OpusDecodeFloat (Some 5247000) (Some 5265000) 5000 (Some 5269008) 5760 0]
   \<and> take 5000 (drop 5265000 (write_bytes (replicate 16777216 0) 5265000 (replicate 5000 7))) =
       replicate 5000 7
   \<and> write_bytes (replicate 16777216 0) 5265000 (replicate 5000 7) ! 5269999 = 7
   \<and> fst (decode (replicate 5000 7) (opus_decode_float example_native) ready_world) =
       Inr [1065353216, 1073741824]"
proof -
  let ?staged = "write_bytes (replicate 16777216 0) 5265000 (replicate 5000 7)"
  let ?heap = "write_bytes ?staged 5269008 [0, 0, 128, 63, 0, 0, 0, 64]"
  have v: "view_ok (HEAPU8 \<lparr>HEAPU8 = replicate 16777216 0\<rparr>)
             (to_index (inputBuffer (decoderWorker ready_world))) 1
             (length (replicate 5000 (7 :: byte)))"
    by (simp add: ready_world_fields view_ok_def)
  have r: "opus_decode_float example_native
             (write_bytes (HEAPU8 \<lparr>HEAPU8 = replicate 16777216 0\<rparr>)
                (nat (to_index (inputBuffer (decoderWorker ready_world)))) (replicate 5000 7)) =
           DecodeReturns 2 ?heap"
    by (simp add: ready_world_fields example_native_def)
  have o: "view_ok ?heap (to_index (outputBuffer (decoderWorker ready_world))) 4 (nat 2)"
    by (simp add: ready_world_fields view_ok_def write_bytes_def)
  have s: "read_f32 ?heap (nat (to_index (outputBuffer (decoderWorker ready_world)))) (nat 2)
            = [1065353216, 1073741824]"
    by (simp add: ready_world_fields write_bytes_def read_f32_def f32_at_def nth_append
        word_rcat_def upt_rec)
  have beyond: "?staged ! 5269999 = 7"
    by (simp add: write_bytes_def nth_append)
  note t = decode_copies_whole_payload [of ready_world "\<lparr>HEAPU8 = replicate 16777216 0\<rparr>"
      "replicate 5000 7" "opus_decode_float example_native" 2 ?heap example_native,
      OF ready_world_fields(5) ready_world_fields(2)]
  from t v have a: "native_calls
        (snd (decode (replicate 5000 7) (opus_decode_float example_native) ready_world)) =
      native_calls ready_world @
        [OpusDecodeFloat (decoder (decoderWorker ready_world))
           (inputBuffer (decoderWorker ready_world)) (int (length (replicate 5000 (7 :: byte))))
           (outputBuffer (decoderWorker ready_world)) 5760 0]"
    by blast
  from t v have b: "take (length (replicate 5000 (7 :: byte)))
          (drop (nat (to_index (inputBuffer (decoderWorker ready_world))))
             (write_bytes (HEAPU8 \<lparr>HEAPU8 = replicate 16777216 0\<rparr>)
                (nat (to_index (inputBuffer (decoderWorker ready_world))))
                (replicate 5000 7))) = replicate 5000 7"
    by blast
  from t v r o have c: "fst (decode (replicate 5000 7) (opus_decode_float example_native) ready_world) =
      Inr (read_f32 ?heap (nat (to_index (outputBuffer (decoderWorker ready_world)))) (nat 2))"
    by simp
  from a b c beyond show ?thesis
    unfolding s by (simp add: ready_world_fields)
qed

text \<open>
  The claim as written fails for a payload that does not fit in the linear memory:
  12000000 bytes from 5265000 on end beyond the 16 MiB, so the payload is rejected with
  a RangeError, nothing is copied and the native decode is not called.
\<close>

theorem oversized_payload_counterexample:
  "fst (decode (replicate 12000000 1) (opus_decode_float example_native) ready_world) =
     Inl RangeError
   \<and> native_calls (snd (decode (replicate 12000000 1) (opus_decode_float example_native)
        ready_world)) = native_calls ready_world
   \<and> posted (onmessage (Decode (Some (replicate 12000000 1))) example_native ready_world) =
       [DecoderReady, DecodeError RangeError]"
  by (simp add: ready_world_eq decode_message_def decode_def view_ok_def Let_def)

subsection \<open>C10: init while initialized\<close>

text \<open>
  C10. An init message is accepted in every state: the handler only suspends a new
  initialization. When that initialization succeeds (error code 0), the session's
  handle, module and both buffer pointers are replaced by the new ones, and the native
  calls made are exactly the allocation of the error cell, the create call, the read of
  the error code, the release of the error cell and the two buffer allocations: the previous handle is not
  destroyed and the previous buffers are not freed.
\<close>

theorem init_accepted_in_every_state:
  assumes "errorCode n = 0"
  shows "onmessage Init env w = w\<lparr>pending_init := pending_init w + 1\<rparr>
    \<and> decoderWorker (initialize_resume (LoadResolves n) (onmessage Init env w)) =
        \<lparr>decoder = Some (handle n), wasmModule = Some \<lparr>HEAPU8 = memory n\<rparr>,
         inputBuffer = Some (inputPtr n), outputBuffer = Some (outputPtr n)\<rparr>
    \<and> native_calls (initialize_resume (LoadResolves n) (onmessage Init env w)) =
        native_calls w @
          [Malloc 4, OpusDecoderCreate 48000 1 (errorPtr n), GetValue (errorPtr n),
           Free (Some (errorPtr n)), Malloc 4000, Malloc 23040]
    \<and> posted (initialize_resume (LoadResolves n) (onmessage Init env w)) =
        posted w @ [DecoderReady]"
proof -
  have "0 < pending_init (onmessage Init env w)" by simp
  from initialize_resume_success [OF this assms] show ?thesis
    by (simp add: initialize_begin_def)
qed

text \<open>
  On the ready example, a second init leaves the first decoder (5247000) and its
  buffers (5265000, 5269008) allocated and moves the session to the new ones.
\<close>

theorem init_accepted_in_every_state_witness:
  "initialized (decoderWorker ready_world)
   \<and> decoderWorker (initialize_resume (LoadResolves example_reinit)
        (onmessage Init example_native ready_world)) =
        \<lparr>decoder = Some 5247040, wasmModule = Some \<lparr>HEAPU8 = replicate 16777216 0\<rparr>,
         inputBuffer = Some 5265040, outputBuffer = Some 5269048\<rparr>
   \<and> native_calls (initialize_resume (LoadResolves example_reinit)
        (onmessage Init example_native ready_world)) =
        [Malloc 4, OpusDecoderCreate 48000 1 5246976, GetValue 5246976, Free (Some 5246976),
         Malloc 4000, Malloc 23040,
         Malloc 4, OpusDecoderCreate 48000 1 5246976, GetValue 5246976, Free (Some 5246976),
         Malloc 4000, Malloc 23040]
   \<and> posted (initialize_resume (LoadResolves example_reinit)
        (onmessage Init example_native ready_world)) = [DecoderReady, DecoderReady]"
proof -
  have z: "errorCode example_reinit = 0" by (simp add: example_reinit_def)
  have nc: "native_calls ready_world =
      [Malloc 4, OpusDecoderCreate 48000 1 5246976, GetValue 5246976, Free (Some 5246976),
       Malloc 4000, Malloc 23040]"
    by (simp add: ready_world_eq)
  from init_accepted_in_every_state [OF z, of example_native ready_world] show ?thesis
    by (simp add: example_reinit_def nc ready_world_fields)
qed

end
